theory Spec2Isabelle
  imports Main
begin

section \<open>TFX StatisticsGen component definition\<close>

text \<open>
  A shallow embedding of \<^verbatim>\<open>tfx/components/statistics_gen/component.py\<close>: the
  constructor \<^verbatim>\<open>StatisticsGen.__init__\<close>, together with the collaborators it
  calls. The constructor has two effects besides its result: it may write one message to
  the log, and it creates one \<^verbatim>\<open>Channel\<close> object. Both are kept in an explicit
  state that the model threads through.
\<close>

subsection \<open>Channels, the object store and the log\<close>

text \<open>
  The artifact types of \<^verbatim>\<open>tfx.types.standard_artifacts\<close> that occur in this
  component: the type of the input examples, of the schema and of the output statistics.
\<close>

datatype artifact_type = Examples | Schema | ExampleStatistics

text \<open>
  A \<^verbatim>\<open>types.Channel\<close> object, as far as this component uses it: it is created with a
  \<^verbatim>\<open>type\<close> and passed on, never read.
\<close>

record Channel =
  type :: artifact_type

text \<open>
  Python objects have identity: two channels of the same type are still two objects. A
  channel is therefore referred to by its position in the list of all channels created
  so far, and creating one appends to that list. \<open>info_log\<close> holds the messages given to
  \<^verbatim>\<open>logging.info\<close>, oldest first.
\<close>

type_synonym ref = nat

record world =
  channels :: "Channel list"
  info_log :: "string list"

definition deref :: "world \<Rightarrow> ref \<Rightarrow> Channel option" where
  "deref w r = (if r < length (channels w) then Some (channels w ! r) else None)"

definition logging_info :: "string \<Rightarrow> world \<Rightarrow> world" where
  "logging_info msg w = w\<lparr>info_log := info_log w @ [msg]\<rparr>"

text \<open>\<^verbatim>\<open>types.Channel(type=ty)\<close>: a new object, returned by reference.\<close>

definition types_Channel :: "artifact_type \<Rightarrow> world \<Rightarrow> ref \<times> world" where
  "types_Channel ty w =
     (length (channels w), w\<lparr>channels := channels w @ [\<lparr>type = ty\<rparr>]\<rparr>)"

subsection \<open>The statistics options object\<close>

text \<open>
  An exception raised by a collaborator, with its description. The constructor has no
  \<^verbatim>\<open>raise\<close> statement of its own.
\<close>

datatype error = Raised string

text \<open>
  \<^verbatim>\<open>tfdv.StatsOptions\<close> belongs to an external library, and the annotation of the
  argument is not enforced. The constructor does two things with the object it is given:
  it tests it as a condition (\<^verbatim>\<open>if stats_options\<close>), which calls the object's
  \<^verbatim>\<open>__bool__\<close> or \<^verbatim>\<open>__len__\<close> where it has one and so gives a truth value or raises;
  and it evaluates \<^verbatim>\<open>stats_options.to_json()\<close>, which returns a string or raises (an
  object without that method raises here as well). The object is modelled by these two
  observations.
\<close>

record StatsOptions =
  truthy :: "error + bool"
  to_json :: "error + string"

subsection \<open>Serialising the excluded splits\<close>

text \<open>
  Modelled from the spec: \<^verbatim>\<open>json_utils.dumps\<close> (module \<^verbatim>\<open>tfx.utils.json_utils\<close>) is
  not among the sources. The specification calls it ``a generic JSON-like serialization
  utility'', ``a function serializing an ordered sequence of strings to a string-encoded
  form decodable by the downstream engine''. The model is the JSON text of an array of
  strings restricted to printable ASCII: a string is written between double quotes, with
  the double quote, the backslash and the control characters escaped, and every character
  outside the range from space to tilde written as \<^verbatim>\<open>\u00XX\<close>; the elements are
  separated by a comma and a space, between square brackets. Split names are values of
  type \<^typ>\<open>string\<close>, so a character has a code below 256.
\<close>

definition hex_digit :: "nat \<Rightarrow> char" where
  "hex_digit n = (if n < 10 then char_of (48 + n) else char_of (87 + n))"

definition escape_char :: "char \<Rightarrow> string" where
  "escape_char c =
     (if c = CHR 0x22 then [CHR 0x5C, CHR 0x22]
      else if c = CHR 0x5C then [CHR 0x5C, CHR 0x5C]
      else if c = CHR 0x0A then [CHR 0x5C, CHR ''n'']
      else if c = CHR 0x0D then [CHR 0x5C, CHR ''r'']
      else if c = CHR 0x09 then [CHR 0x5C, CHR ''t'']
      else if c = CHR 0x08 then [CHR 0x5C, CHR ''b'']
      else if c = CHR 0x0C then [CHR 0x5C, CHR ''f'']
      else if (of_char c :: nat) < 0x20 \<or> (0x7E :: nat) < of_char c then
        [CHR 0x5C, CHR ''u'', CHR ''0'', CHR ''0'',
         hex_digit (of_char c div 16), hex_digit (of_char c mod 16)]
      else [c])"

definition encode_string :: "string \<Rightarrow> string" where
  "encode_string s = CHR 0x22 # concat (map escape_char s) @ [CHR 0x22]"

fun join_items :: "string list \<Rightarrow> string" where
  "join_items [] = []"
| "join_items [x] = x"
| "join_items (x # y # ys) = x @ '', '' @ join_items (y # ys)"

definition json_utils_dumps :: "string list \<Rightarrow> string" where
  "json_utils_dumps xs = ''['' @ join_items (map encode_string xs) @ '']''"

text \<open>
  The value passed as \<^verbatim>\<open>exclude_splits\<close>, when it is not \<^verbatim>\<open>None\<close>. The annotation
  \<^verbatim>\<open>List[str]\<close> is not enforced either: besides a list of strings, the caller may pass
  a value that \<^verbatim>\<open>json_utils.dumps\<close> refuses (a set, a list of bytes). Such a value is
  given with the exception that \<^verbatim>\<open>json_utils.dumps\<close> raises for it.
\<close>

datatype splits_arg = StrList "string list" | NotSerializable error

definition json_utils_dumps_arg :: "splits_arg \<Rightarrow> error + string" where
  "json_utils_dumps_arg a =
     (case a of
        StrList xs \<Rightarrow> Inr (json_utils_dumps xs)
      | NotSerializable e \<Rightarrow> Inl e)"

text \<open>
  Modelled from the spec: \<^verbatim>\<open>json_utils.loads\<close>, the decoder that the downstream engine
  applies to the serialised field, is not among the sources either. The model reads the
  JSON text of an array of strings and returns \<^const>\<open>None\<close> for any other text: white
  space is allowed around the brackets, the elements and the commas; inside a string a
  backslash starts one of the escapes of JSON, \<^verbatim>\<open>\uXXXX\<close> with four hexadecimal digits
  in either case among them, and an unescaped control character is refused. A
  \<^verbatim>\<open>\uXXXX\<close> of 256 or more has no value of type \<^typ>\<open>char\<close> and is refused as well.
\<close>

definition is_ws :: "char \<Rightarrow> bool" where
  "is_ws c = (c = CHR '' '' \<or> c = CHR 0x09 \<or> c = CHR 0x0A \<or> c = CHR 0x0D)"

definition skip_ws :: "string \<Rightarrow> string" where
  "skip_ws s = dropWhile is_ws s"

definition hex_value :: "char \<Rightarrow> nat option" where
  "hex_value c =
     (let n = (of_char c :: nat)
      in if 48 \<le> n \<and> n \<le> 57 then Some (n - 48)
         else if 97 \<le> n \<and> n \<le> 102 then Some (n - 87)
         else if 65 \<le> n \<and> n \<le> 70 then Some (n - 55)
         else None)"

definition hex4 :: "char \<Rightarrow> char \<Rightarrow> char \<Rightarrow> char \<Rightarrow> nat option" where
  "hex4 h1 h2 h3 h4 =
     (case (hex_value h1, hex_value h2, hex_value h3, hex_value h4) of
        (Some a, Some b, Some c, Some d) \<Rightarrow> Some (((a * 16 + b) * 16 + c) * 16 + d)
      | _ \<Rightarrow> None)"

definition unescape :: "char \<Rightarrow> char option" where
  "unescape e =
     (if e = CHR 0x22 then Some (CHR 0x22)
      else if e = CHR 0x5C then Some (CHR 0x5C)
      else if e = CHR ''/'' then Some (CHR ''/'')
      else if e = CHR ''b'' then Some (CHR 0x08)
      else if e = CHR ''f'' then Some (CHR 0x0C)
      else if e = CHR ''n'' then Some (CHR 0x0A)
      else if e = CHR ''r'' then Some (CHR 0x0D)
      else if e = CHR ''t'' then Some (CHR 0x09)
      else None)"

definition cons_char :: "char \<Rightarrow> (string \<times> string) option \<Rightarrow> (string \<times> string) option" where
  "cons_char c r = (case r of None \<Rightarrow> None | Some (x, rest) \<Rightarrow> Some (c # x, rest))"

text \<open>
  The text after an opening double quote: the string it holds, and what follows the
  closing double quote.
\<close>

fun scanstring :: "string \<Rightarrow> (string \<times> string) option" where
  "scanstring [] = None"
| "scanstring (c # cs) =
     (if c = CHR 0x22 then Some ([], cs)
      else if c = CHR 0x5C then
        (case cs of
           [] \<Rightarrow> None
         | e # cs' \<Rightarrow>
             if e = CHR ''u'' then
               (case cs' of
                  h1 # h2 # h3 # h4 # rest \<Rightarrow>
                    (case hex4 h1 h2 h3 h4 of
                       None \<Rightarrow> None
                     | Some n \<Rightarrow>
                         if n < 256 then cons_char (char_of n) (scanstring rest) else None)
                | _ \<Rightarrow> None)
             else
               (case unescape e of
                  None \<Rightarrow> None
                | Some d \<Rightarrow> cons_char d (scanstring cs')))
      else if (of_char c :: nat) < 0x20 then None
      else cons_char c (scanstring cs))"

lemma scanstring_shorter: "scanstring s = Some (x, r) \<Longrightarrow> length r < length s"
proof (induction s arbitrary: x r rule: scanstring.induct)
  case 1
  then show ?case by simp
next
  case (2 c cs)
  then show ?case
    by (auto simp: cons_char_def split: if_splits list.splits option.splits prod.splits)
      fastforce+
qed

lemma skip_ws_length: "length (skip_ws s) \<le> length s"
  by (simp add: skip_ws_def length_dropWhile_le)

text \<open>The elements of a non-empty array, up to and including the closing bracket.\<close>

function parse_items :: "string \<Rightarrow> string list option" where
  "parse_items s =
     (case skip_ws s of
        [] \<Rightarrow> None
      | q # r1 \<Rightarrow>
          if q = CHR 0x22 then
            (case scanstring r1 of
               None \<Rightarrow> None
             | Some (x, r2) \<Rightarrow>
                 (case skip_ws r2 of
                    [] \<Rightarrow> None
                  | d # r3 \<Rightarrow>
                      if d = CHR '','' then
                        (case parse_items r3 of None \<Rightarrow> None | Some xs \<Rightarrow> Some (x # xs))
                      else if d = CHR '']'' then (if skip_ws r3 = [] then Some [x] else None)
                      else None))
          else None)"
  by pat_completeness auto
termination
proof (relation "measure length")
  show "wf (measure length)"
    by simp
next
  fix s :: string and q r1 xa x r2 d r3
  assume a: "skip_ws s = q # r1" "scanstring r1 = Some xa" "(x, r2) = xa" "skip_ws r2 = d # r3"
  have "length r3 < length (skip_ws r2)"
    using a(4) by simp
  also have "\<dots> \<le> length r2"
    by (rule skip_ws_length)
  also have "\<dots> < length r1"
    using a(2,3) scanstring_shorter [of r1 x r2] by simp
  also have "\<dots> < length (skip_ws s)"
    using a(1) by simp
  also have "\<dots> \<le> length s"
    by (rule skip_ws_length)
  finally show "(r3, s) \<in> measure length"
    by simp
qed

declare parse_items.simps [simp del]

definition json_utils_loads :: "string \<Rightarrow> string list option" where
  "json_utils_loads s =
     (case skip_ws s of
        [] \<Rightarrow> None
      | b # r \<Rightarrow>
          if b = CHR ''['' then
            (case skip_ws r of
               [] \<Rightarrow> None
             | e # r' \<Rightarrow>
                 if e = CHR '']'' then (if skip_ws r' = [] then Some [] else None)
                 else parse_items r)
          else None)"

subsection \<open>The component specification and the component\<close>

text \<open>
  \<^verbatim>\<open>standard_component_specs.StatisticsGenSpec\<close>, by the keyword arguments the
  constructor passes to it. Channels are held by reference; Python's \<^verbatim>\<open>None\<close> is
  \<^const>\<open>None\<close>.
\<close>

record StatisticsGenSpec =
  examples :: ref
  schema :: "ref option"
  stats_options_json :: "string option"
  exclude_splits :: string
  statistics :: ref

text \<open>The component object that \<^verbatim>\<open>super().__init__(spec=spec)\<close> initialises.\<close>

record StatisticsGen =
  spec :: StatisticsGenSpec

text \<open>
  Modelled from the spec: the \<^verbatim>\<open>outputs\<close> attribute is defined by the base component
  class, which is not among the sources. The specification says of the constructed
  component that its ``\<^verbatim>\<open>outputs\<close> mapping contains exactly one entry, key "statistics",
  value = the newly created example-statistics channel'', and the class's own docstring
  lists the one entry \<^verbatim>\<open>statistics\<close>. The value is the channel the specification
  record holds under \<^verbatim>\<open>statistics\<close>.
\<close>

definition outputs :: "StatisticsGen \<Rightarrow> (string \<rightharpoonup> ref)" where
  "outputs c = [''statistics'' \<mapsto> statistics (spec c)]"

subsection \<open>The constructor\<close>

text \<open>
  \<^verbatim>\<open>StatisticsGen.__init__(self, examples, schema, stats_options, exclude_splits)\<close>,
  statement by statement. The two calls into the framework, \<^verbatim>\<open>StatisticsGenSpec(...)\<close>
  and \<^verbatim>\<open>super().__init__(spec=spec)\<close>, validate their arguments in code that is not
  among the sources: what they raise, if anything, is given by the parameters
  \<open>spec_init\<close> and \<open>base_init\<close>, which see the specification record and the channels that
  exist. An exception ends the constructor at once, whichever call raised it: the truth
  test of \<^verbatim>\<open>stats_options\<close>, its \<^verbatim>\<open>to_json()\<close>, \<^verbatim>\<open>json_utils.dumps\<close>, or one of the two
  framework calls, in this order. What the constructor did to the state before stays
  done. The result is the exception or the component, and the final state.
\<close>

definition StatisticsGen_init ::
  "(StatisticsGenSpec \<Rightarrow> Channel list \<Rightarrow> error option) \<Rightarrow>
   (StatisticsGenSpec \<Rightarrow> Channel list \<Rightarrow> error option) \<Rightarrow>
   ref \<Rightarrow> ref option \<Rightarrow> StatsOptions option \<Rightarrow> splits_arg option \<Rightarrow> world \<Rightarrow>
   (error + StatisticsGen) \<times> world" where
  "StatisticsGen_init spec_init base_init examples' schema' stats_options exclude_splits' w =
     (let (exclude_splits'', w1) =
            (case exclude_splits' of
               None \<Rightarrow>
                 (StrList [],
                  logging_info ''Excluding no splits because exclude_splits is not set.'' w)
             | Some a \<Rightarrow> (a, w));
          (statistics', w2) = types_Channel ExampleStatistics w1
      in case (case stats_options of
                 None \<Rightarrow> Inr None
               | Some so \<Rightarrow>
                   (case truthy so of
                      Inl e \<Rightarrow> Inl e
                    | Inr b \<Rightarrow>
                        if b then
                          (case to_json so of Inl e \<Rightarrow> Inl e | Inr j \<Rightarrow> Inr (Some j))
                        else Inr None)) of
           Inl e \<Rightarrow> (Inl e, w2)
         | Inr stats_options_json' \<Rightarrow>
             (case json_utils_dumps_arg exclude_splits'' of
                Inl e \<Rightarrow> (Inl e, w2)
              | Inr dumped \<Rightarrow>
                  (let spec' = \<lparr>examples = examples', schema = schema',
                               stats_options_json = stats_options_json',
                               exclude_splits = dumped,
                               statistics = statistics'\<rparr>
                   in case spec_init spec' (channels w2) of
                        Some e \<Rightarrow> (Inl e, w2)
                      | None \<Rightarrow>
                          (case base_init spec' (channels w2) of
                             Some e \<Rightarrow> (Inl e, w2)
                           | None \<Rightarrow> (Inr \<lparr>spec = spec'\<rparr>, w2)))))"

section \<open>What the constructor returns and what it leaves behind\<close>

text \<open>
  The final state does not depend on whether a collaborator raised: the new channel has
  been created and the message, if any, has been logged before the first call that can
  fail.
\<close>

lemma init_snd:
  "snd (StatisticsGen_init spec_init base_init ex sch so xs w) =
     \<lparr>channels = channels w @ [\<lparr>type = ExampleStatistics\<rparr>],
      info_log = (case xs of
                    None \<Rightarrow> info_log w @ [''Excluding no splits because exclude_splits is not set.'']
                  | Some _ \<Rightarrow> info_log w)\<rparr>"
  unfolding StatisticsGen_init_def types_Channel_def logging_info_def Let_def
  by (cases xs; cases so; simp split: sum.split option.split)

text \<open>The successful runs, and the component each of them returns.\<close>

lemma init_Inr:
  "fst (StatisticsGen_init spec_init base_init ex sch so xs w) = Inr c \<longleftrightarrow>
     (\<exists>j ys. (case so of
                 None \<Rightarrow> j = None
               | Some opts \<Rightarrow>
                   (truthy opts = Inr True \<and> (\<exists>s. to_json opts = Inr s \<and> j = Some s)) \<or>
                   (truthy opts = Inr False \<and> j = None)) \<and>
             (case xs of None \<Rightarrow> ys = [] | Some a \<Rightarrow> a = StrList ys) \<and>
             c = \<lparr>spec = \<lparr>examples = ex, schema = sch, stats_options_json = j,
                          exclude_splits = json_utils_dumps ys,
                          statistics = length (channels w)\<rparr>\<rparr> \<and>
             spec_init (spec c) (channels w @ [\<lparr>type = ExampleStatistics\<rparr>]) = None \<and>
             base_init (spec c) (channels w @ [\<lparr>type = ExampleStatistics\<rparr>]) = None)"
  unfolding StatisticsGen_init_def types_Channel_def logging_info_def Let_def
    json_utils_dumps_arg_def
  by (cases xs; cases so; cases "the xs"; cases "truthy (the so)"; cases "to_json (the so)";
      auto split: option.split)

text \<open>The failing runs: the exception is one a collaborator raised on this call.\<close>

lemma init_Inl:
  "fst (StatisticsGen_init spec_init base_init ex sch so xs w) = Inl e \<Longrightarrow>
     (\<exists>opts. so = Some opts \<and> truthy opts = Inl e) \<or>
     (\<exists>opts. so = Some opts \<and> truthy opts = Inr True \<and> to_json opts = Inl e) \<or>
     (\<exists>a. xs = Some a \<and> json_utils_dumps_arg a = Inl e) \<or>
     (\<exists>j d. spec_init \<lparr>examples = ex, schema = sch, stats_options_json = j,
                        exclude_splits = d, statistics = length (channels w)\<rparr>
              (channels w @ [\<lparr>type = ExampleStatistics\<rparr>]) = Some e) \<or>
     (\<exists>j d. base_init \<lparr>examples = ex, schema = sch, stats_options_json = j,
                        exclude_splits = d, statistics = length (channels w)\<rparr>
              (channels w @ [\<lparr>type = ExampleStatistics\<rparr>]) = Some e)"
  unfolding StatisticsGen_init_def types_Channel_def logging_info_def Let_def
    json_utils_dumps_arg_def
  by (cases xs; cases so; cases "the xs"; cases "truthy (the so)"; cases "to_json (the so)";
      auto split: option.splits if_splits)

lemmas init_eval =
  StatisticsGen_init_def types_Channel_def logging_info_def json_utils_dumps_arg_def
  json_utils_dumps_def encode_string_def escape_char_def hex_digit_def

section \<open>Decoding what was serialised\<close>

text \<open>
  The decoder reads back every list of strings the serialiser writes. The proof follows
  the serialiser: one character, one string, the elements, the array.
\<close>

lemma hex_value_hex_digit: "k < 16 \<Longrightarrow> hex_value (hex_digit k) = Some k"
  by (auto simp: hex_value_def hex_digit_def Let_def)

lemma hex4_byte:
  "n < 256 \<Longrightarrow> hex4 (CHR ''0'') (CHR ''0'') (hex_digit (n div 16)) (hex_digit (n mod 16)) = Some n"
proof -
  assume n: "n < 256"
  have z: "hex_value (CHR ''0'') = Some 0"
    by (simp add: hex_value_def)
  have d: "n div 16 < 16"
    using n by simp
  have m: "n mod 16 < 16"
    by simp
  show ?thesis
    by (simp add: hex4_def z hex_value_hex_digit [OF d] hex_value_hex_digit [OF m])
qed

lemma scanstring_escape_char:
  "scanstring (escape_char c @ t) = cons_char c (scanstring t)"
proof (cases "c \<in> {CHR 0x22, CHR 0x5C, CHR 0x0A, CHR 0x0D, CHR 0x09, CHR 0x08, CHR 0x0C}")
  case True
  then show ?thesis
    by (auto simp: escape_char_def unescape_def)
next
  case False
  then have ne: "c \<noteq> CHR 0x22" "c \<noteq> CHR 0x5C" "c \<noteq> CHR 0x0A" "c \<noteq> CHR 0x0D"
    "c \<noteq> CHR 0x09" "c \<noteq> CHR 0x08" "c \<noteq> CHR 0x0C"
    by simp_all
  show ?thesis
  proof (cases "(of_char c :: nat) < 0x20 \<or> (0x7E :: nat) < of_char c")
    case True
    have b: "(of_char c :: nat) < 256"
      by simp
    from True have e: "escape_char c = [CHR 0x5C, CHR ''u'', CHR ''0'', CHR ''0'',
         hex_digit (of_char c div 16), hex_digit (of_char c mod 16)]"
      by (simp add: escape_char_def ne)
    show ?thesis
      by (simp add: e hex4_byte [OF b])
  next
    case False
    then have e: "escape_char c = [c]"
      by (simp add: escape_char_def ne)
    from False show ?thesis
      by (simp add: e ne)
  qed
qed

lemma scanstring_escaped:
  "scanstring (concat (map escape_char s) @ CHR 0x22 # rest) = Some (s, rest)"
  by (induction s) (simp_all add: scanstring_escape_char cons_char_def)

lemma skip_ws_quote [simp]: "skip_ws (CHR 0x22 # t) = CHR 0x22 # t"
  by (simp add: skip_ws_def is_ws_def)

lemma skip_ws_bracket [simp]: "skip_ws (CHR '']'' # t) = CHR '']'' # t"
  by (simp add: skip_ws_def is_ws_def)

lemma skip_ws_comma [simp]: "skip_ws (CHR '','' # t) = CHR '','' # t"
  by (simp add: skip_ws_def is_ws_def)

lemma skip_ws_space [simp]: "skip_ws (CHR '' '' # t) = skip_ws t"
  by (simp add: skip_ws_def is_ws_def)

lemma skip_ws_open [simp]: "skip_ws (CHR ''['' # t) = CHR ''['' # t"
  by (simp add: skip_ws_def is_ws_def)

lemma skip_ws_Nil [simp]: "skip_ws [] = []"
  by (simp add: skip_ws_def)

lemma parse_items_space: "parse_items (CHR '' '' # t) = parse_items t"
  by (subst parse_items.simps, subst (2) parse_items.simps) simp

lemma parse_items_encode_string:
  "parse_items (encode_string x @ r2) =
     (case skip_ws r2 of
        [] \<Rightarrow> None
      | d # r3 \<Rightarrow>
          if d = CHR '','' then
            (case parse_items r3 of None \<Rightarrow> None | Some xs \<Rightarrow> Some (x # xs))
          else if d = CHR '']'' then (if skip_ws r3 = [] then Some [x] else None)
          else None)"
  by (subst parse_items.simps) (simp add: encode_string_def scanstring_escaped)

lemma parse_items_encoded:
  "parse_items (join_items (map encode_string (x # xs)) @ '']'') = Some (x # xs)"
proof (induction xs arbitrary: x)
  case Nil
  show ?case
    by (simp add: parse_items_encode_string)
next
  case (Cons y ys)
  have "parse_items (join_items (map encode_string (x # y # ys)) @ '']'') =
        parse_items (encode_string x @ '', '' @ join_items (map encode_string (y # ys)) @ '']'')"
    by simp
  also have "\<dots> = Some (x # y # ys)"
    using Cons.IH [of y] by (simp add: parse_items_encode_string parse_items_space)
  finally show ?case .
qed

lemma loads_dumps: "json_utils_loads (json_utils_dumps xs) = Some xs"
proof (cases xs)
  case Nil
  then show ?thesis
    by (simp add: json_utils_loads_def json_utils_dumps_def)
next
  case (Cons x ys)
  obtain t where t: "join_items (map encode_string (x # ys)) @ '']'' = CHR 0x22 # t"
    by (cases ys) (simp_all add: encode_string_def)
  have "json_utils_dumps xs = CHR ''['' # CHR 0x22 # t"
    using Cons t by (simp add: json_utils_dumps_def)
  then have "json_utils_loads (json_utils_dumps xs) = parse_items (CHR 0x22 # t)"
    by (simp add: json_utils_loads_def)
  also have "\<dots> = Some xs"
    using parse_items_encoded [of x ys] t Cons by simp
  finally show ?thesis .
qed

section \<open>The serialised statistics options\<close>

text \<open>
  Claim C3, as written: whenever a \<^verbatim>\<open>stats_options\<close> value is supplied, the
  specification's \<^verbatim>\<open>stats_options_json\<close> is the result of that object's own
  \<^verbatim>\<open>to_json()\<close>. The constructor tests the object's truth value, not whether it is
  \<^verbatim>\<open>None\<close>: an options object that is supplied but counts as false is never asked
  for its serialisation, and the field is \<^verbatim>\<open>None\<close> although \<^verbatim>\<open>to_json()\<close> would
  have returned \<^verbatim>\<open>{}\<close>.
\<close>

theorem supplied_falsy_stats_options_not_serialised:
  "to_json \<lparr>truthy = Inr False, to_json = Inr ''{}''\<rparr> = Inr ''{}'' \<and>
   fst (StatisticsGen_init (\<lambda>_ _. None) (\<lambda>_ _. None) 0 None
          (Some \<lparr>truthy = Inr False, to_json = Inr ''{}''\<rparr>) None
          \<lparr>channels = [\<lparr>type = Examples\<rparr>], info_log = []\<rparr>) =
     Inr \<lparr>spec = \<lparr>examples = 0, schema = None, stats_options_json = None,
                  exclude_splits = ''[]'', statistics = 1\<rparr>\<rparr>"
  by (simp add: init_eval)

text \<open>
  Claim C3, amended: whenever a \<^verbatim>\<open>stats_options\<close> value is supplied that counts as
  true, and the construction succeeds, the specification's \<^verbatim>\<open>stats_options_json\<close> is
  the string that this object's own \<^verbatim>\<open>to_json()\<close> returned.
\<close>

theorem stats_options_json_is_to_json_when_truthy:
  "truthy so = Inr True \<Longrightarrow>
   fst (StatisticsGen_init spec_init base_init ex sch (Some so) xs w) = Inr c \<Longrightarrow>
   \<exists>j. to_json so = Inr j \<and> stats_options_json (spec c) = Some j"
  by (auto simp: init_Inr)

theorem stats_options_json_is_to_json_when_truthy_witness:
  "truthy \<lparr>truthy = Inr True, to_json = Inr ''{}''\<rparr> = Inr True \<and>
   fst (StatisticsGen_init (\<lambda>_ _. None) (\<lambda>_ _. None) 0 None
          (Some \<lparr>truthy = Inr True, to_json = Inr ''{}''\<rparr>) None
          \<lparr>channels = [\<lparr>type = Examples\<rparr>], info_log = []\<rparr>) =
     Inr \<lparr>spec = \<lparr>examples = 0, schema = None, stats_options_json = Some ''{}'',
                  exclude_splits = ''[]'', statistics = 1\<rparr>\<rparr> \<and>
   (\<exists>j. to_json \<lparr>truthy = Inr True, to_json = Inr ''{}''\<rparr> = Inr j \<and>
        stats_options_json
          (spec \<lparr>spec = \<lparr>examples = 0, schema = None, stats_options_json = Some ''{}'',
                         exclude_splits = ''[]'', statistics = 1\<rparr>\<rparr>) = Some j)"
proof -
  have t: "truthy \<lparr>truthy = Inr True, to_json = Inr ''{}''\<rparr> = Inr True"
    by simp
  have r: "fst (StatisticsGen_init (\<lambda>_ _. None) (\<lambda>_ _. None) 0 None
                  (Some \<lparr>truthy = Inr True, to_json = Inr ''{}''\<rparr>) None
                  \<lparr>channels = [\<lparr>type = Examples\<rparr>], info_log = []\<rparr>) =
             Inr \<lparr>spec = \<lparr>examples = 0, schema = None, stats_options_json = Some ''{}'',
                          exclude_splits = ''[]'', statistics = 1\<rparr>\<rparr>"
    by (simp add: init_eval)
  from stats_options_json_is_to_json_when_truthy [OF t r] t r show ?thesis
    by blast
qed

text \<open>
  Claim C4: whenever \<^verbatim>\<open>stats_options\<close> is omitted (\<^verbatim>\<open>None\<close>), the specification's
  \<^verbatim>\<open>stats_options_json\<close> is \<^verbatim>\<open>None\<close>.
\<close>

theorem stats_options_json_None_when_omitted:
  "fst (StatisticsGen_init spec_init base_init ex sch None xs w) = Inr c \<Longrightarrow>
   stats_options_json (spec c) = None"
  by (auto simp: init_Inr)

theorem stats_options_json_None_when_omitted_witness:
  "fst (StatisticsGen_init (\<lambda>_ _. None) (\<lambda>_ _. None) 0 (Some 1) None (Some (StrList [''eval'']))
          \<lparr>channels = [\<lparr>type = Examples\<rparr>, \<lparr>type = Schema\<rparr>], info_log = []\<rparr>) =
     Inr \<lparr>spec = \<lparr>examples = 0, schema = Some 1, stats_options_json = None,
                  exclude_splits = CHR ''['' # CHR 0x22 # ''eval'' @ [CHR 0x22, CHR '']''],
                  statistics = 2\<rparr>\<rparr> \<and>
   stats_options_json
     (spec \<lparr>spec = \<lparr>examples = 0, schema = Some 1, stats_options_json = None,
                    exclude_splits = CHR ''['' # CHR 0x22 # ''eval'' @ [CHR 0x22, CHR '']''],
                    statistics = 2\<rparr>\<rparr>) = None"
proof -
  have r: "fst (StatisticsGen_init (\<lambda>_ _. None) (\<lambda>_ _. None) 0 (Some 1) None (Some (StrList [''eval'']))
                  \<lparr>channels = [\<lparr>type = Examples\<rparr>, \<lparr>type = Schema\<rparr>], info_log = []\<rparr>) =
             Inr \<lparr>spec = \<lparr>examples = 0, schema = Some 1, stats_options_json = None,
                          exclude_splits = CHR ''['' # CHR 0x22 # ''eval'' @ [CHR 0x22, CHR '']''],
                          statistics = 2\<rparr>\<rparr>"
    by (simp add: init_eval)
  from stats_options_json_None_when_omitted [OF r] r show ?thesis
    by blast
qed



section \<open>The excluded splits and the log\<close>

text \<open>An explicit empty list and an omitted argument give the same result.\<close>

lemma init_fst_empty:
  "fst (StatisticsGen_init spec_init base_init ex sch so (Some (StrList [])) w) =
   fst (StatisticsGen_init spec_init base_init ex sch so None w)"
  unfolding StatisticsGen_init_def types_Channel_def logging_info_def Let_def
    json_utils_dumps_arg_def
  by (cases so; cases "truthy (the so)"; cases "to_json (the so)"; simp split: option.split)

text \<open>
  Claim C1: whenever \<^verbatim>\<open>exclude_splits\<close> is omitted (\<^verbatim>\<open>None\<close>), exactly one
  informational message is logged during the construction, and the serialised
  \<^verbatim>\<open>exclude_splits\<close> of the resulting specification decodes to the empty list.
\<close>

theorem omitted_exclude_splits_empty_and_logged:
  "info_log (snd (StatisticsGen_init spec_init base_init ex sch so None w)) =
     info_log w @ [''Excluding no splits because exclude_splits is not set.''] \<and>
   length (info_log (snd (StatisticsGen_init spec_init base_init ex sch so None w))) =
     length (info_log w) + 1 \<and>
   (\<forall>c. fst (StatisticsGen_init spec_init base_init ex sch so None w) = Inr c \<longrightarrow>
        json_utils_loads (exclude_splits (spec c)) = Some [])"
  by (auto simp: init_snd init_Inr loads_dumps)

theorem omitted_exclude_splits_empty_and_logged_witness:
  "fst (StatisticsGen_init (\<lambda>_ _. None) (\<lambda>_ _. None) 0 None None None
          \<lparr>channels = [\<lparr>type = Examples\<rparr>], info_log = [''earlier'']\<rparr>) =
     Inr \<lparr>spec = \<lparr>examples = 0, schema = None, stats_options_json = None,
                  exclude_splits = ''[]'', statistics = 1\<rparr>\<rparr> \<and>
   json_utils_loads ''[]'' = Some [] \<and>
   info_log (snd (StatisticsGen_init (\<lambda>_ _. None) (\<lambda>_ _. None) 0 None None None
          \<lparr>channels = [\<lparr>type = Examples\<rparr>], info_log = [''earlier'']\<rparr>)) =
     [''earlier'', ''Excluding no splits because exclude_splits is not set.'']"
proof -
  have r: "fst (StatisticsGen_init (\<lambda>_ _. None) (\<lambda>_ _. None) 0 None None None
                  \<lparr>channels = [\<lparr>type = Examples\<rparr>], info_log = [''earlier'']\<rparr>) =
             Inr \<lparr>spec = \<lparr>examples = 0, schema = None, stats_options_json = None,
                          exclude_splits = ''[]'', statistics = 1\<rparr>\<rparr>"
    by (simp add: init_eval)
  from omitted_exclude_splits_empty_and_logged
         [of "\<lambda>_ _. None" "\<lambda>_ _. None" 0 None None
             "\<lparr>channels = [\<lparr>type = Examples\<rparr>], info_log = [''earlier'']\<rparr>"] r
  show ?thesis
    by simp
qed

text \<open>
  Claim C2: whenever \<^verbatim>\<open>exclude_splits\<close> is a non-empty list of strings, decoding the
  serialised \<^verbatim>\<open>exclude_splits\<close> of the resulting specification gives back exactly
  that list, in the same order.
\<close>

theorem exclude_splits_round_trip:
  "xs \<noteq> [] \<Longrightarrow>
   fst (StatisticsGen_init spec_init base_init ex sch so (Some (StrList xs)) w) = Inr c \<Longrightarrow>
   json_utils_loads (exclude_splits (spec c)) = Some xs"
  by (auto simp: init_Inr loads_dumps)

theorem exclude_splits_round_trip_witness:
  "[''train'', ''eval''] \<noteq> [] \<and>
   fst (StatisticsGen_init (\<lambda>_ _. None) (\<lambda>_ _. None) 0 None None (Some (StrList [''train'', ''eval'']))
          \<lparr>channels = [\<lparr>type = Examples\<rparr>], info_log = []\<rparr>) =
     Inr \<lparr>spec = \<lparr>examples = 0, schema = None, stats_options_json = None,
                  exclude_splits =
                    CHR ''['' # CHR 0x22 # ''train'' @ CHR 0x22 # '', '' @
                    CHR 0x22 # ''eval'' @ [CHR 0x22, CHR '']''],
                  statistics = 1\<rparr>\<rparr> \<and>
   json_utils_loads
     (CHR ''['' # CHR 0x22 # ''train'' @ CHR 0x22 # '', '' @
      CHR 0x22 # ''eval'' @ [CHR 0x22, CHR '']'']) = Some [''train'', ''eval'']"
proof -
  have n: "[''train'', ''eval''] \<noteq> []"
    by simp
  have r: "fst (StatisticsGen_init (\<lambda>_ _. None) (\<lambda>_ _. None) 0 None None
                  (Some (StrList [''train'', ''eval'']))
                  \<lparr>channels = [\<lparr>type = Examples\<rparr>], info_log = []\<rparr>) =
             Inr \<lparr>spec = \<lparr>examples = 0, schema = None, stats_options_json = None,
                          exclude_splits =
                            CHR ''['' # CHR 0x22 # ''train'' @ CHR 0x22 # '', '' @
                            CHR 0x22 # ''eval'' @ [CHR 0x22, CHR '']''],
                          statistics = 1\<rparr>\<rparr>"
    by (simp add: init_eval)
  from exclude_splits_round_trip [OF n r] r show ?thesis
    by simp
qed

text \<open>
  Claim C8: whenever \<^verbatim>\<open>exclude_splits\<close> is supplied, the serialised field of the
  resulting specification decodes to exactly that list and nothing is logged. The
  construction leaves the state as it was apart from the channel it creates and, only
  when \<^verbatim>\<open>exclude_splits\<close> is omitted, the one message about the default.
\<close>

theorem supplied_exclude_splits_not_logged:
  "(\<forall>c. fst (StatisticsGen_init spec_init base_init ex sch so (Some (StrList xs)) w) = Inr c \<longrightarrow>
        json_utils_loads (exclude_splits (spec c)) = Some xs) \<and>
   snd (StatisticsGen_init spec_init base_init ex sch so (Some a) w) =
     w\<lparr>channels := channels w @ [\<lparr>type = ExampleStatistics\<rparr>]\<rparr> \<and>
   snd (StatisticsGen_init spec_init base_init ex sch so None w) =
     w\<lparr>channels := channels w @ [\<lparr>type = ExampleStatistics\<rparr>],
       info_log := info_log w @ [''Excluding no splits because exclude_splits is not set.'']\<rparr> \<and>
   (info_log (snd (StatisticsGen_init spec_init base_init ex sch so arg w)) \<noteq> info_log w
      \<longleftrightarrow> arg = None)"
  by (cases arg) (auto simp: init_snd init_Inr loads_dumps)

theorem supplied_exclude_splits_not_logged_witness:
  "fst (StatisticsGen_init (\<lambda>_ _. None) (\<lambda>_ _. None) 0 None None (Some (StrList [''eval'']))
          \<lparr>channels = [\<lparr>type = Examples\<rparr>], info_log = [''earlier'']\<rparr>) =
     Inr \<lparr>spec = \<lparr>examples = 0, schema = None, stats_options_json = None,
                  exclude_splits = CHR ''['' # CHR 0x22 # ''eval'' @ [CHR 0x22, CHR '']''],
                  statistics = 1\<rparr>\<rparr> \<and>
   json_utils_loads (CHR ''['' # CHR 0x22 # ''eval'' @ [CHR 0x22, CHR '']'']) = Some [''eval''] \<and>
   snd (StatisticsGen_init (\<lambda>_ _. None) (\<lambda>_ _. None) 0 None None (Some (StrList [''eval'']))
          \<lparr>channels = [\<lparr>type = Examples\<rparr>], info_log = [''earlier'']\<rparr>) =
     \<lparr>channels = [\<lparr>type = Examples\<rparr>, \<lparr>type = ExampleStatistics\<rparr>], info_log = [''earlier'']\<rparr>"
proof -
  have r: "fst (StatisticsGen_init (\<lambda>_ _. None) (\<lambda>_ _. None) 0 None None (Some (StrList [''eval'']))
                  \<lparr>channels = [\<lparr>type = Examples\<rparr>], info_log = [''earlier'']\<rparr>) =
             Inr \<lparr>spec = \<lparr>examples = 0, schema = None, stats_options_json = None,
                          exclude_splits = CHR ''['' # CHR 0x22 # ''eval'' @ [CHR 0x22, CHR '']''],
                          statistics = 1\<rparr>\<rparr>"
    by (simp add: init_eval)
  from supplied_exclude_splits_not_logged
         [of "\<lambda>_ _. None" "\<lambda>_ _. None" 0 None None "[''eval'']"
             "\<lparr>channels = [\<lparr>type = Examples\<rparr>], info_log = [''earlier'']\<rparr>"
             "StrList [''eval'']"] r
  show ?thesis
    by simp
qed

text \<open>
  Claim C10: an explicitly supplied empty list \<^verbatim>\<open>exclude_splits=[]\<close> gives the same
  serialised field as an omitted argument, and both decode to the empty list; but
  with the empty list nothing is logged, while the omitted argument logs the message:
  the default is taken for \<^verbatim>\<open>None\<close>, not for emptiness.
\<close>

theorem empty_exclude_splits_same_but_not_logged:
  "fst (StatisticsGen_init spec_init base_init ex sch so (Some (StrList [])) w) =
     fst (StatisticsGen_init spec_init base_init ex sch so None w) \<and>
   (\<forall>c. fst (StatisticsGen_init spec_init base_init ex sch so (Some (StrList [])) w) = Inr c \<longrightarrow>
        exclude_splits (spec c) = json_utils_dumps [] \<and>
        json_utils_loads (exclude_splits (spec c)) = Some []) \<and>
   info_log (snd (StatisticsGen_init spec_init base_init ex sch so (Some (StrList [])) w)) = info_log w \<and>
   info_log (snd (StatisticsGen_init spec_init base_init ex sch so None w)) =
     info_log w @ [''Excluding no splits because exclude_splits is not set.'']"
  by (auto simp: init_fst_empty init_snd init_Inr loads_dumps)

theorem empty_exclude_splits_same_but_not_logged_witness:
  "fst (StatisticsGen_init (\<lambda>_ _. None) (\<lambda>_ _. None) 0 None None (Some (StrList []))
          \<lparr>channels = [\<lparr>type = Examples\<rparr>], info_log = []\<rparr>) =
     Inr \<lparr>spec = \<lparr>examples = 0, schema = None, stats_options_json = None,
                  exclude_splits = ''[]'', statistics = 1\<rparr>\<rparr> \<and>
   fst (StatisticsGen_init (\<lambda>_ _. None) (\<lambda>_ _. None) 0 None None None
          \<lparr>channels = [\<lparr>type = Examples\<rparr>], info_log = []\<rparr>) =
     Inr \<lparr>spec = \<lparr>examples = 0, schema = None, stats_options_json = None,
                  exclude_splits = ''[]'', statistics = 1\<rparr>\<rparr> \<and>
   json_utils_loads ''[]'' = Some [] \<and>
   info_log (snd (StatisticsGen_init (\<lambda>_ _. None) (\<lambda>_ _. None) 0 None None (Some (StrList []))
          \<lparr>channels = [\<lparr>type = Examples\<rparr>], info_log = []\<rparr>)) = []"
proof -
  have r: "fst (StatisticsGen_init (\<lambda>_ _. None) (\<lambda>_ _. None) 0 None None (Some (StrList []))
                  \<lparr>channels = [\<lparr>type = Examples\<rparr>], info_log = []\<rparr>) =
             Inr \<lparr>spec = \<lparr>examples = 0, schema = None, stats_options_json = None,
                          exclude_splits = ''[]'', statistics = 1\<rparr>\<rparr>"
    by (simp add: init_eval)
  have d: "json_utils_dumps [] = ''[]''"
    by (simp add: json_utils_dumps_def)
  from empty_exclude_splits_same_but_not_logged
         [of "\<lambda>_ _. None" "\<lambda>_ _. None" 0 None None
             "\<lparr>channels = [\<lparr>type = Examples\<rparr>], info_log = []\<rparr>"] r d
  show ?thesis
    by auto
qed

section \<open>The output channel\<close>

text \<open>
  Claim C6: whatever \<^verbatim>\<open>examples\<close>, \<^verbatim>\<open>schema\<close>, \<^verbatim>\<open>stats_options\<close> and
  \<^verbatim>\<open>exclude_splits\<close> are, the channel that the specification holds under
  \<^verbatim>\<open>statistics\<close> has the artifact type \<^verbatim>\<open>ExampleStatistics\<close>.
\<close>

theorem statistics_channel_is_ExampleStatistics:
  "fst (StatisticsGen_init spec_init base_init ex sch so xs w) = Inr c \<Longrightarrow>
   deref (snd (StatisticsGen_init spec_init base_init ex sch so xs w)) (statistics (spec c)) =
     Some \<lparr>type = ExampleStatistics\<rparr>"
  by (auto simp: init_Inr init_snd deref_def)

theorem statistics_channel_is_ExampleStatistics_witness:
  "fst (StatisticsGen_init (\<lambda>_ _. None) (\<lambda>_ _. None) 1 (Some 0)
          (Some \<lparr>truthy = Inr True, to_json = Inr ''{}''\<rparr>) (Some (StrList [''eval'']))
          \<lparr>channels = [\<lparr>type = Schema\<rparr>, \<lparr>type = Examples\<rparr>], info_log = []\<rparr>) =
     Inr \<lparr>spec = \<lparr>examples = 1, schema = Some 0, stats_options_json = Some ''{}'',
                  exclude_splits = CHR ''['' # CHR 0x22 # ''eval'' @ [CHR 0x22, CHR '']''],
                  statistics = 2\<rparr>\<rparr> \<and>
   deref (snd (StatisticsGen_init (\<lambda>_ _. None) (\<lambda>_ _. None) 1 (Some 0)
                 (Some \<lparr>truthy = Inr True, to_json = Inr ''{}''\<rparr>) (Some (StrList [''eval'']))
                 \<lparr>channels = [\<lparr>type = Schema\<rparr>, \<lparr>type = Examples\<rparr>], info_log = []\<rparr>)) 2 =
     Some \<lparr>type = ExampleStatistics\<rparr>"
proof -
  have r: "fst (StatisticsGen_init (\<lambda>_ _. None) (\<lambda>_ _. None) 1 (Some 0)
                  (Some \<lparr>truthy = Inr True, to_json = Inr ''{}''\<rparr>) (Some (StrList [''eval'']))
                  \<lparr>channels = [\<lparr>type = Schema\<rparr>, \<lparr>type = Examples\<rparr>], info_log = []\<rparr>) =
             Inr \<lparr>spec = \<lparr>examples = 1, schema = Some 0, stats_options_json = Some ''{}'',
                          exclude_splits = CHR ''['' # CHR 0x22 # ''eval'' @ [CHR 0x22, CHR '']''],
                          statistics = 2\<rparr>\<rparr>"
    by (simp add: init_eval)
  from statistics_channel_is_ExampleStatistics [OF r] r show ?thesis
    by simp
qed

text \<open>
  Claim C5: the \<^verbatim>\<open>outputs\<close> mapping of the constructed component has exactly one key,
  \<^verbatim>\<open>statistics\<close>, and its value is the channel created during this construction: a
  channel that did not exist before, and so neither the \<^verbatim>\<open>examples\<close> channel nor the
  \<^verbatim>\<open>schema\<close> channel, which did.
\<close>

theorem outputs_is_the_new_statistics_channel:
  "ex < length (channels w) \<Longrightarrow>
   (case sch of None \<Rightarrow> True | Some r \<Rightarrow> r < length (channels w)) \<Longrightarrow>
   fst (StatisticsGen_init spec_init base_init ex sch so xs w) = Inr c \<Longrightarrow>
   dom (outputs c) = {''statistics''} \<and>
   outputs c ''statistics'' = Some (statistics (spec c)) \<and>
   deref w (statistics (spec c)) = None \<and>
   deref (snd (StatisticsGen_init spec_init base_init ex sch so xs w)) (statistics (spec c)) =
     Some \<lparr>type = ExampleStatistics\<rparr> \<and>
   examples (spec c) = ex \<and> schema (spec c) = sch \<and>
   outputs c ''statistics'' \<noteq> Some ex \<and> outputs c ''statistics'' \<noteq> sch"
  by (auto simp: init_Inr init_snd deref_def outputs_def split: option.splits)

theorem outputs_is_the_new_statistics_channel_witness:
  "(0::nat) < length (channels \<lparr>channels = [\<lparr>type = Examples\<rparr>, \<lparr>type = Schema\<rparr>], info_log = []\<rparr>) \<and>
   (1::nat) < length (channels \<lparr>channels = [\<lparr>type = Examples\<rparr>, \<lparr>type = Schema\<rparr>], info_log = []\<rparr>) \<and>
   fst (StatisticsGen_init (\<lambda>_ _. None) (\<lambda>_ _. None) 0 (Some 1) None None
          \<lparr>channels = [\<lparr>type = Examples\<rparr>, \<lparr>type = Schema\<rparr>], info_log = []\<rparr>) =
     Inr \<lparr>spec = \<lparr>examples = 0, schema = Some 1, stats_options_json = None,
                  exclude_splits = ''[]'', statistics = 2\<rparr>\<rparr> \<and>
   dom (outputs \<lparr>spec = \<lparr>examples = 0, schema = Some 1, stats_options_json = None,
                          exclude_splits = ''[]'', statistics = 2\<rparr>\<rparr>) = {''statistics''} \<and>
   outputs \<lparr>spec = \<lparr>examples = 0, schema = Some 1, stats_options_json = None,
                     exclude_splits = ''[]'', statistics = 2\<rparr>\<rparr> ''statistics'' = Some 2"
proof -
  have e: "(0::nat) < length (channels \<lparr>channels = [\<lparr>type = Examples\<rparr>, \<lparr>type = Schema\<rparr>], info_log = []\<rparr>)"
    by simp
  have s: "case Some (1::nat) of None \<Rightarrow> True
           | Some r \<Rightarrow> r < length (channels \<lparr>channels = [\<lparr>type = Examples\<rparr>, \<lparr>type = Schema\<rparr>], info_log = []\<rparr>)"
    by simp
  have r: "fst (StatisticsGen_init (\<lambda>_ _. None) (\<lambda>_ _. None) 0 (Some 1) None None
                  \<lparr>channels = [\<lparr>type = Examples\<rparr>, \<lparr>type = Schema\<rparr>], info_log = []\<rparr>) =
             Inr \<lparr>spec = \<lparr>examples = 0, schema = Some 1, stats_options_json = None,
                          exclude_splits = ''[]'', statistics = 2\<rparr>\<rparr>"
    by (simp add: init_eval)
  from outputs_is_the_new_statistics_channel [OF e s r] r show ?thesis
    by simp
qed

section \<open>Exceptions\<close>

text \<open>
  Claim C7: the constructor raises nothing of its own, whatever it is given. Every
  exception that reaches the caller is one that a collaborator raised on this very call:
  the truth test of the supplied options object, its \<^verbatim>\<open>to_json()\<close>,
  \<^verbatim>\<open>json_utils.dumps\<close> on the supplied \<^verbatim>\<open>exclude_splits\<close>, the constructor of the
  specification, or the initialiser of the base component. When none of them raises on
  this call, the construction returns a component.
\<close>

theorem init_raises_only_from_collaborators:
  "(\<forall>e. fst (StatisticsGen_init spec_init base_init ex sch so xs w) = Inl e \<longrightarrow>
        (\<exists>opts. so = Some opts \<and> truthy opts = Inl e) \<or>
        (\<exists>opts. so = Some opts \<and> truthy opts = Inr True \<and> to_json opts = Inl e) \<or>
        (\<exists>a. xs = Some a \<and> json_utils_dumps_arg a = Inl e) \<or>
        (\<exists>j d. spec_init \<lparr>examples = ex, schema = sch, stats_options_json = j,
                           exclude_splits = d, statistics = length (channels w)\<rparr>
                 (channels w @ [\<lparr>type = ExampleStatistics\<rparr>]) = Some e) \<or>
        (\<exists>j d. base_init \<lparr>examples = ex, schema = sch, stats_options_json = j,
                           exclude_splits = d, statistics = length (channels w)\<rparr>
                 (channels w @ [\<lparr>type = ExampleStatistics\<rparr>]) = Some e)) \<and>
   ((\<forall>opts. so = Some opts \<longrightarrow>
        (\<exists>b. truthy opts = Inr b) \<and>
        (truthy opts = Inr True \<longrightarrow> (\<exists>j. to_json opts = Inr j))) \<and>
    (\<forall>a. xs = Some a \<longrightarrow> (\<exists>d. json_utils_dumps_arg a = Inr d)) \<and>
    (\<forall>j d. spec_init \<lparr>examples = ex, schema = sch, stats_options_json = j,
                       exclude_splits = d, statistics = length (channels w)\<rparr>
             (channels w @ [\<lparr>type = ExampleStatistics\<rparr>]) = None) \<and>
    (\<forall>j d. base_init \<lparr>examples = ex, schema = sch, stats_options_json = j,
                       exclude_splits = d, statistics = length (channels w)\<rparr>
             (channels w @ [\<lparr>type = ExampleStatistics\<rparr>]) = None) \<longrightarrow>
    (\<exists>c. fst (StatisticsGen_init spec_init base_init ex sch so xs w) = Inr c))"
proof (intro conjI allI impI)
  fix e
  assume "fst (StatisticsGen_init spec_init base_init ex sch so xs w) = Inl e"
  from init_Inl [OF this]
  show "(\<exists>opts. so = Some opts \<and> truthy opts = Inl e) \<or>
        (\<exists>opts. so = Some opts \<and> truthy opts = Inr True \<and> to_json opts = Inl e) \<or>
        (\<exists>a. xs = Some a \<and> json_utils_dumps_arg a = Inl e) \<or>
        (\<exists>j d. spec_init \<lparr>examples = ex, schema = sch, stats_options_json = j,
                           exclude_splits = d, statistics = length (channels w)\<rparr>
                 (channels w @ [\<lparr>type = ExampleStatistics\<rparr>]) = Some e) \<or>
        (\<exists>j d. base_init \<lparr>examples = ex, schema = sch, stats_options_json = j,
                           exclude_splits = d, statistics = length (channels w)\<rparr>
                 (channels w @ [\<lparr>type = ExampleStatistics\<rparr>]) = Some e)" .
next
  assume a: "(\<forall>opts. so = Some opts \<longrightarrow>
        (\<exists>b. truthy opts = Inr b) \<and>
        (truthy opts = Inr True \<longrightarrow> (\<exists>j. to_json opts = Inr j))) \<and>
    (\<forall>a. xs = Some a \<longrightarrow> (\<exists>d. json_utils_dumps_arg a = Inr d)) \<and>
    (\<forall>j d. spec_init \<lparr>examples = ex, schema = sch, stats_options_json = j,
                       exclude_splits = d, statistics = length (channels w)\<rparr>
             (channels w @ [\<lparr>type = ExampleStatistics\<rparr>]) = None) \<and>
    (\<forall>j d. base_init \<lparr>examples = ex, schema = sch, stats_options_json = j,
                       exclude_splits = d, statistics = length (channels w)\<rparr>
             (channels w @ [\<lparr>type = ExampleStatistics\<rparr>]) = None)"
  show "\<exists>c. fst (StatisticsGen_init spec_init base_init ex sch so xs w) = Inr c"
  proof (cases "fst (StatisticsGen_init spec_init base_init ex sch so xs w)")
    case (Inl e)
    from init_Inl [OF this] a show ?thesis
      by auto
  next
    case (Inr c)
    then show ?thesis
      by blast
  qed
qed

theorem init_raises_only_from_collaborators_witness:
  "fst (StatisticsGen_init (\<lambda>_ _. None) (\<lambda>_ _. None) 0 None
          (Some \<lparr>truthy = Inl (Raised ''ValueError''), to_json = Inr ''{}''\<rparr>) None
          \<lparr>channels = [\<lparr>type = Examples\<rparr>], info_log = []\<rparr>) = Inl (Raised ''ValueError'') \<and>
   fst (StatisticsGen_init (\<lambda>_ _. None) (\<lambda>_ _. None) 0 None
          (Some \<lparr>truthy = Inr True, to_json = Inl (Raised ''AttributeError'')\<rparr>) None
          \<lparr>channels = [\<lparr>type = Examples\<rparr>], info_log = []\<rparr>) = Inl (Raised ''AttributeError'') \<and>
   fst (StatisticsGen_init (\<lambda>_ _. None) (\<lambda>_ _. None) 0 None None
          (Some (NotSerializable (Raised ''TypeError'')))
          \<lparr>channels = [\<lparr>type = Examples\<rparr>], info_log = []\<rparr>) = Inl (Raised ''TypeError'') \<and>
   fst (StatisticsGen_init
          (\<lambda>sp chs. if type (chs ! examples sp) = Examples then None
                     else Some (Raised ''TypeError''))
          (\<lambda>_ _. None) 0 None None None
          \<lparr>channels = [\<lparr>type = Schema\<rparr>], info_log = []\<rparr>) = Inl (Raised ''TypeError'') \<and>
   (\<exists>c. fst (StatisticsGen_init (\<lambda>_ _. None) (\<lambda>_ _. None) 0 None
               (Some \<lparr>truthy = Inr True, to_json = Inr ''{}''\<rparr>) (Some (StrList [''eval'']))
               \<lparr>channels = [\<lparr>type = Examples\<rparr>], info_log = []\<rparr>) = Inr c)"
proof -
  have b: "fst (StatisticsGen_init (\<lambda>_ _. None) (\<lambda>_ _. None) 0 None
                  (Some \<lparr>truthy = Inl (Raised ''ValueError''), to_json = Inr ''{}''\<rparr>) None
                  \<lparr>channels = [\<lparr>type = Examples\<rparr>], info_log = []\<rparr>) = Inl (Raised ''ValueError'')"
    by (simp add: init_eval)
  have j: "fst (StatisticsGen_init (\<lambda>_ _. None) (\<lambda>_ _. None) 0 None
                  (Some \<lparr>truthy = Inr True, to_json = Inl (Raised ''AttributeError'')\<rparr>) None
                  \<lparr>channels = [\<lparr>type = Examples\<rparr>], info_log = []\<rparr>) =
             Inl (Raised ''AttributeError'')"
    by (simp add: init_eval)
  have d: "fst (StatisticsGen_init (\<lambda>_ _. None) (\<lambda>_ _. None) 0 None None
                  (Some (NotSerializable (Raised ''TypeError'')))
                  \<lparr>channels = [\<lparr>type = Examples\<rparr>], info_log = []\<rparr>) = Inl (Raised ''TypeError'')"
    by (simp add: init_eval)
  have r: "fst (StatisticsGen_init
                  (\<lambda>sp chs. if type (chs ! examples sp) = Examples then None
                             else Some (Raised ''TypeError''))
                  (\<lambda>_ _. None) 0 None None None
                  \<lparr>channels = [\<lparr>type = Schema\<rparr>], info_log = []\<rparr>) = Inl (Raised ''TypeError'')"
    by (simp add: init_eval)
  from init_raises_only_from_collaborators
         [of "\<lambda>_ _. None" "\<lambda>_ _. None" 0 None
             "Some \<lparr>truthy = Inr True, to_json = Inr ''{}''\<rparr>" "Some (StrList [''eval''])"
             "\<lparr>channels = [\<lparr>type = Examples\<rparr>], info_log = []\<rparr>"]
  have c: "\<exists>c. fst (StatisticsGen_init (\<lambda>_ _. None) (\<lambda>_ _. None) 0 None
                      (Some \<lparr>truthy = Inr True, to_json = Inr ''{}''\<rparr>) (Some (StrList [''eval'']))
                      \<lparr>channels = [\<lparr>type = Examples\<rparr>], info_log = []\<rparr>) = Inr c"
    by (auto simp: json_utils_dumps_arg_def)
  from b j d r c show ?thesis
    by blast
qed

end
